theory Spec2Isabelle
  imports Main
begin

section \<open>The batch exporter of \<open>scripts/export_yolo_onnx.py\<close>\<close>

text \<open>
  The script creates a destination directory, then walks a fixed list of checkpoint
  names; for each name present on disk it loads the checkpoint, exports it to ONNX with
  fixed options and moves the artifact into the destination directory. Everything it
  does is an effect (file system, console, the model library), so the embedding threads
  a world through every statement and returns a raised exception as a value. Every call
  that can raise in Python can raise in the model, \<open>print\<close> included.
\<close>

subsection \<open>Strings and paths\<close>

type_synonym path = string

text \<open>\<open>str.startswith\<close> and \<open>str.endswith\<close>.\<close>

definition startswith :: "string \<Rightarrow> string \<Rightarrow> bool" where
  "startswith s pre = (take (length pre) s = pre)"

definition endswith :: "string \<Rightarrow> string \<Rightarrow> bool" where
  "endswith s suf = (length suf \<le> length s \<and> drop (length s - length suf) s = suf)"

text \<open>
  \<open>str.replace(old, new)\<close>: every non-overlapping occurrence of \<open>old\<close>, found from the
  left, is replaced, not only one at the end of the string. For an empty \<open>old\<close> Python
  puts \<open>new\<close> before every character and at the end.
\<close>

function str_replace :: "string \<Rightarrow> string \<Rightarrow> string \<Rightarrow> string" where
  "str_replace old new s =
     (if old = [] then new @ concat (map (\<lambda>c. c # new) s)
      else if s = [] then []
      else if startswith s old then new @ str_replace old new (drop (length old) s)
      else hd s # str_replace old new (tl s))"
  by pat_completeness auto
termination
  by (relation "measure (\<lambda>(old, new, s). length s)") auto

declare str_replace.simps [simp del]

text \<open>
  \<open>os.path.join\<close> and \<open>os.path.dirname\<close> as \<open>posixpath\<close> defines them (the separator
  is \<open>/\<close>): a component that starts with the separator discards what came before it.
\<close>

definition join2 :: "path \<Rightarrow> path \<Rightarrow> path" where
  "join2 p b =
     (if startswith b ''/'' then b
      else if p = [] \<or> endswith p ''/'' then p @ b
      else p @ ''/'' @ b)"

definition os_path_join :: "path \<Rightarrow> path list \<Rightarrow> path" where
  "os_path_join a ps = foldl join2 a ps"

definition rstrip_sep :: "path \<Rightarrow> path" where
  "rstrip_sep p = rev (dropWhile (\<lambda>c. c = CHR ''/'') (rev p))"

definition os_path_dirname :: "path \<Rightarrow> path" where
  "os_path_dirname p =
     (let head = rev (dropWhile (\<lambda>c. c \<noteq> CHR ''/'') (rev p))
      in if head \<noteq> [] \<and> head \<noteq> replicate (length head) CHR ''/''
         then rstrip_sep head else head)"

text \<open>
  \<open>os.path.splitext(p)[0]\<close>: the name without its extension. The extension starts at
  the last dot of the last component, unless that component has only leading dots
  before it. It is the reading of ``the checkpoint name with its extension stripped''
  that the computed destination is compared with.
\<close>

definition splitext_root :: "path \<Rightarrow> path" where
  "splitext_root p =
     (let base = rev (takeWhile (\<lambda>c. c \<noteq> CHR ''/'') (rev p));
          ext = rev (takeWhile (\<lambda>c. c \<noteq> CHR ''.'') (rev base));
          stem = take (length base - length ext - 1) base
      in if CHR ''.'' \<in> set base \<and> (\<exists>c \<in> set stem. c \<noteq> CHR ''.'')
         then take (length p - length ext - 1) p else p)"

definition replace_extension :: "path \<Rightarrow> string \<Rightarrow> path" where
  "replace_extension name ext = splitext_root name @ ext"

subsection \<open>The world: file system and the record of what the script did\<close>

datatype node = File string | Directory

type_synonym filesystem = "path \<rightharpoonup> node"

text \<open>
  A raised exception: its class name and \<open>str(e)\<close>. \<open>Exn\<close> is an instance of
  \<open>Exception\<close>; \<open>BaseExn\<close> is an instance of \<open>BaseException\<close> that is not one of
  \<open>Exception\<close> (\<open>KeyboardInterrupt\<close>, \<open>SystemExit\<close>). \<open>is_Exception\<close> is the test that
  \<open>except Exception\<close> makes.
\<close>

datatype py_exception =
    is_Exception: Exn (exn_class: string) (exn_str: string)
  | BaseExn (exn_class: string) (exn_str: string)

text \<open>The keyword arguments of \<open>model.export\<close>.\<close>

record export_kwargs =
  format :: string
  imgsz :: int
  simplify :: bool
  dynamic :: bool
  half :: bool
  opset :: int

text \<open>
  Every call the script makes to the outside is recorded, in order: the trace is how the
  claims about order (``before any checkpoint''), about absence (``no export is invoked'')
  and about console reports are stated. \<open>PathExists\<close> carries the answer; \<open>Print\<close> is
  a line that the console took.
\<close>

datatype event =
    Makedirs path bool
  | Print string
  | PathExists path bool
  | YoloLoad string
  | ModelExport export_kwargs
  | Rename path path

record world =
  fs :: filesystem
  trace :: "event list"

text \<open>
  What the script does not determine is a parameter: the path of the script file
  (\<open>__file__\<close>), the console, the two operations of the model library, and the refusals
  of the operating system that the file system of the model does not decide
  (permissions, a move across devices, a directory that is not empty, a missing parent
  of the destination). The console may refuse a line, given what happened so far, with
  an exception of any class (a closed pipe, a full device, an interrupt). An operation
  of the library is a function of its arguments and of the file system it finds; it may
  raise an exception of any class, and it leaves a file system of its choice, also when
  it raises. A refusal of the operating system is an \<open>OSError\<close>, given by the name of
  its class and its text. \<open>'m\<close> is the library's model object.
\<close>

record 'm env =
  script_file :: path
  print_refused :: "string \<Rightarrow> event list \<Rightarrow> py_exception option"
  makedirs_refused :: "path \<Rightarrow> filesystem \<Rightarrow> (string \<times> string) option"
  yolo_load :: "string \<Rightarrow> filesystem \<Rightarrow> (py_exception + 'm) \<times> filesystem"
  yolo_export :: "'m \<Rightarrow> export_kwargs \<Rightarrow> filesystem \<Rightarrow> (py_exception + path) \<times> filesystem"
  rename_refused :: "path \<Rightarrow> path \<Rightarrow> filesystem \<Rightarrow> (string \<times> string) option"

text \<open>
  A statement that may raise returns the exception (\<open>Inl\<close>) or its value, together with
  the world it leaves: effects made before a raise stay.
\<close>

type_synonym 'a outcome = "(py_exception + 'a) \<times> world"

definition record_event :: "event \<Rightarrow> world \<Rightarrow> world" where
  "record_event ev w = w\<lparr>trace := trace w @ [ev]\<rparr>"

text \<open>\<open>print\<close>: the line reaches the console, or the exception of the console is raised.\<close>

definition print_line :: "'m env \<Rightarrow> string \<Rightarrow> world \<Rightarrow> unit outcome" where
  "print_line env s w =
     (case print_refused env s (trace w) of
        Some e \<Rightarrow> (Inl e, w)
      | None \<Rightarrow> (Inr (), record_event (Print s) w))"

text \<open>\<open>os.path.exists\<close> answers for files and directories alike and never raises.\<close>

definition os_path_exists :: "path \<Rightarrow> world \<Rightarrow> bool \<times> world" where
  "os_path_exists p w = (fs w p \<noteq> None, record_event (PathExists p (fs w p \<noteq> None)) w)"

text \<open>
  The directories above a path, outermost first, by repeated \<open>dirname\<close>. Paths are the
  keys of the file system as the script spells them: no \<open>..\<close> is resolved and no
  working directory is prepended.
\<close>

function ancestors :: "path \<Rightarrow> path list" where
  "ancestors p =
     (let d = os_path_dirname p
      in if d = [] \<or> length p \<le> length d then [] else ancestors d @ [d])"
  by pat_completeness auto
termination
  by (relation "measure length") auto

declare ancestors.simps [simp del]

definition is_file :: "node option \<Rightarrow> bool" where
  "is_file x = (case x of Some (File _) \<Rightarrow> True | _ \<Rightarrow> False)"

definition mkdir_missing :: "path list \<Rightarrow> filesystem \<Rightarrow> filesystem" where
  "mkdir_missing ds f = foldl (\<lambda>g d. if g d = None then g(d \<mapsto> Directory) else g) f ds"

text \<open>
  \<open>os.makedirs(name, exist_ok=...)\<close>: creates the directory and every missing directory
  above it. It raises when the operating system refuses, when something above the path
  is a file, when the path is a file, and when the path is a directory already and
  \<open>exist_ok\<close> is false.
\<close>

definition makedirs_result :: "'m env \<Rightarrow> path \<Rightarrow> bool \<Rightarrow> filesystem \<Rightarrow> py_exception + filesystem" where
  "makedirs_result env name exist_ok f =
     (case makedirs_refused env name f of
        Some (c, s) \<Rightarrow> Inl (Exn c s)
      | None \<Rightarrow>
          if list_ex (\<lambda>d. is_file (f d)) (ancestors name)
          then Inl (Exn ''NotADirectoryError'' (''[Errno 20] Not a directory: '' @ name))
          else (case f name of
                  Some (File c) \<Rightarrow>
                    Inl (Exn ''FileExistsError'' (''[Errno 17] File exists: '' @ name))
                | Some Directory \<Rightarrow>
                    if exist_ok then Inr f
                    else Inl (Exn ''FileExistsError'' (''[Errno 17] File exists: '' @ name))
                | None \<Rightarrow> Inr (mkdir_missing (ancestors name @ [name]) f)))"

definition os_makedirs :: "'m env \<Rightarrow> path \<Rightarrow> bool \<Rightarrow> world \<Rightarrow> unit outcome" where
  "os_makedirs env name exist_ok w =
     (case makedirs_result env name exist_ok (fs w) of
        Inl e \<Rightarrow> (Inl e, record_event (Makedirs name exist_ok) w)
      | Inr f \<Rightarrow> (Inr (), (record_event (Makedirs name exist_ok) w)\<lparr>fs := f\<rparr>))"

text \<open>
  \<open>os.rename(src, dst)\<close> on a POSIX system: a file replaces whatever file is at \<open>dst\<close>,
  silently; a directory moves with everything below it. It raises when the operating
  system refuses, when \<open>src\<close> does not exist, and when a file would replace a directory
  or a directory a file. Renaming a path to itself changes nothing.
\<close>

definition move_tree :: "path \<Rightarrow> path \<Rightarrow> filesystem \<Rightarrow> filesystem" where
  "move_tree src dst f =
     (\<lambda>p. if p = dst then Some Directory
          else if startswith p (dst @ ''/'') then f (src @ drop (length dst) p)
          else if p = src \<or> startswith p (src @ ''/'') then None
          else f p)"

definition rename_result :: "'m env \<Rightarrow> path \<Rightarrow> path \<Rightarrow> filesystem \<Rightarrow> py_exception + filesystem" where
  "rename_result env src dst f =
     (case rename_refused env src dst f of
        Some (c, s) \<Rightarrow> Inl (Exn c s)
      | None \<Rightarrow>
          (case f src of
             None \<Rightarrow>
               Inl (Exn ''FileNotFoundError''
                  (''[Errno 2] No such file or directory: '' @ src @ '' -> '' @ dst))
           | Some (File c) \<Rightarrow>
               (case f dst of
                  Some Directory \<Rightarrow>
                    Inl (Exn ''IsADirectoryError''
                       (''[Errno 21] Is a directory: '' @ src @ '' -> '' @ dst))
                | _ \<Rightarrow> Inr ((f(src := None))(dst \<mapsto> File c)))
           | Some Directory \<Rightarrow>
               (case f dst of
                  Some (File c) \<Rightarrow>
                    Inl (Exn ''NotADirectoryError''
                       (''[Errno 20] Not a directory: '' @ src @ '' -> '' @ dst))
                | _ \<Rightarrow> Inr (move_tree src dst f))))"

definition os_rename :: "'m env \<Rightarrow> path \<Rightarrow> path \<Rightarrow> world \<Rightarrow> unit outcome" where
  "os_rename env src dst w =
     (case rename_result env src dst (fs w) of
        Inl e \<Rightarrow> (Inl e, record_event (Rename src dst) w)
      | Inr f \<Rightarrow> (Inr (), (record_event (Rename src dst) w)\<lparr>fs := f\<rparr>))"

text \<open>\<open>YOLO(model_name)\<close> and \<open>model.export(...)\<close>: the library decides.\<close>

definition YOLO :: "'m env \<Rightarrow> string \<Rightarrow> world \<Rightarrow> 'm outcome" where
  "YOLO env name w =
     (case yolo_load env name (fs w) of
        (r, f) \<Rightarrow> (r, (record_event (YoloLoad name) w)\<lparr>fs := f\<rparr>))"

definition model_export :: "'m env \<Rightarrow> 'm \<Rightarrow> export_kwargs \<Rightarrow> world \<Rightarrow> path outcome" where
  "model_export env model kwargs w =
     (case yolo_export env model kwargs (fs w) of
        (r, f) \<Rightarrow> (r, (record_event (ModelExport kwargs) w)\<lparr>fs := f\<rparr>))"

subsection \<open>The script\<close>

definition model_names :: "string list" where
  "model_names =
     [''yolo26n-pose.pt'', ''yolo26s-pose.pt'', ''yolo26m-pose.pt'', ''yolo26l-pose.pt'',
      ''yolo26x-pose.pt'', ''yolo26n-seg.pt'', ''yolo26s-seg.pt'', ''yolo26m-seg.pt'',
      ''yolo26l-seg.pt'', ''yolo26x-seg.pt'']"

definition target_dir :: "'m env \<Rightarrow> path" where
  "target_dir env =
     os_path_join (os_path_dirname (script_file env)) [''..'', ''public'', ''models'', ''yolo26'']"

definition export_options :: export_kwargs where
  "export_options =
     \<lparr>format = ''onnx'', imgsz = 640, simplify = True, dynamic = False, half = True,
      opset = 17\<rparr>"

definition onnx_filename :: "string \<Rightarrow> string" where
  "onnx_filename model_name = str_replace ''.pt'' ''.onnx'' model_name"

definition final_path :: "path \<Rightarrow> string \<Rightarrow> path" where
  "final_path tdir model_name = os_path_join tdir [onnx_filename model_name]"

definition processing_line :: "string \<Rightarrow> string" where
  "processing_line model_name = CHR 0x0A # ''Processing '' @ model_name @ ''...''"

definition skipping_line :: "string \<Rightarrow> string" where
  "skipping_line model_name = ''Skipping '' @ model_name @ '': file not found.''"

definition success_line :: "path \<Rightarrow> string \<Rightarrow> string" where
  "success_line tdir model_name =
     ''Successfully exported '' @ onnx_filename model_name @ '' to '' @ final_path tdir model_name"

definition warning_line :: "path \<Rightarrow> string" where
  "warning_line exported_path =
     ''Warning: Expected exported file at '' @ exported_path @ '' but not found.''"

definition error_line :: "string \<Rightarrow> py_exception \<Rightarrow> string" where
  "error_line model_name e = ''Error exporting '' @ model_name @ '': '' @ exn_str e"

text \<open>
  The statements inside \<open>try\<close> (lines 28 to 60). \<open>continue\<close> ends them without an
  exception; an exception of a call, a \<open>print\<close> among them, ends them with it.
\<close>

definition try_block :: "'m env \<Rightarrow> path \<Rightarrow> string \<Rightarrow> world \<Rightarrow> unit outcome" where
  "try_block env tdir model_name w =
     (case os_path_exists model_name w of
        (found, w1) \<Rightarrow>
          if \<not> found then print_line env (skipping_line model_name) w1
          else
            (case YOLO env model_name w1 of
               (Inl e, w2) \<Rightarrow> (Inl e, w2)
             | (Inr model, w2) \<Rightarrow>
                 (case model_export env model export_options w2 of
                    (Inl e, w3) \<Rightarrow> (Inl e, w3)
                  | (Inr exported_path, w3) \<Rightarrow>
                      (case os_path_exists exported_path w3 of
                         (moved, w4) \<Rightarrow>
                           if moved then
                             (case os_rename env exported_path (final_path tdir model_name) w4 of
                                (Inl e, w5) \<Rightarrow> (Inl e, w5)
                              | (Inr u, w5) \<Rightarrow>
                                  print_line env (success_line tdir model_name) w5)
                           else print_line env (warning_line exported_path) w4))))"

text \<open>
  One pass of the \<open>for\<close> body (lines 26 to 63): the notice, which is printed before the
  \<open>try\<close>; the \<open>try\<close>; and \<open>except Exception\<close>, which handles an instance of
  \<open>Exception\<close> by printing the error line and lets every other exception pass. The
  \<open>print\<close> of the handler is not protected either.
\<close>

definition loop_body :: "'m env \<Rightarrow> path \<Rightarrow> string \<Rightarrow> world \<Rightarrow> unit outcome" where
  "loop_body env tdir model_name w =
     (case print_line env (processing_line model_name) w of
        (Inl e, w0) \<Rightarrow> (Inl e, w0)
      | (Inr u, w0) \<Rightarrow>
          (case try_block env tdir model_name w0 of
             (Inl e, w1) \<Rightarrow>
               if is_Exception e then print_line env (error_line model_name e) w1
               else (Inl e, w1)
           | (Inr u, w1) \<Rightarrow> (Inr (), w1)))"

text \<open>A \<open>for\<close> loop: an exception that leaves the body leaves the loop.\<close>

fun for_loop :: "('a \<Rightarrow> world \<Rightarrow> unit outcome) \<Rightarrow> 'a list \<Rightarrow> world \<Rightarrow> unit outcome" where
  "for_loop body [] w = (Inr (), w)"
| "for_loop body (x # xs) w =
     (case body x w of
        (Inl e, w1) \<Rightarrow> (Inl e, w1)
      | (Inr u, w1) \<Rightarrow> for_loop body xs w1)"

definition export_models :: "'m env \<Rightarrow> world \<Rightarrow> unit outcome" where
  "export_models env w =
     (case os_makedirs env (target_dir env) True w of
        (Inl e, w1) \<Rightarrow> (Inl e, w1)
      | (Inr u, w1) \<Rightarrow>
          (case print_line env (''Exporting models to '' @ target_dir env @ ''...'') w1 of
             (Inl e, w2) \<Rightarrow> (Inl e, w2)
           | (Inr u, w2) \<Rightarrow> for_loop (loop_body env (target_dir env)) model_names w2))"

text \<open>
  The script run as a program (lines 65 to 67). The imports of lines 1 and 2 come before
  the program starts and are not modelled.
\<close>

definition main :: "'m env \<Rightarrow> world \<Rightarrow> unit outcome" where
  "main env w =
     (case export_models env w of
        (Inl e, w1) \<Rightarrow> (Inl e, w1)
      | (Inr u, w1) \<Rightarrow> print_line env (CHR 0x0A # ''Export process complete.'') w1)"


subsection \<open>What the claims observe\<close>

text \<open>
  The exception, if any, that the model library raises for one checkpoint: in
  \<open>YOLO(model_name)\<close> or in \<open>model.export(...)\<close>. The library is not called for a
  checkpoint that is not on disk.
\<close>

definition library_raises :: "'m env \<Rightarrow> string \<Rightarrow> filesystem \<Rightarrow> py_exception option" where
  "library_raises env n f =
     (if f n = None then None
      else case yolo_load env n f of
             (Inl e, f1) \<Rightarrow> Some e
           | (Inr m, f1) \<Rightarrow>
               (case yolo_export env m export_options f1 of
                  (Inl e, f2) \<Rightarrow> Some e
                | (Inr p, f2) \<Rightarrow> None))"

text \<open>
  The console accepts every line; the library raises nothing but instances of
  \<open>Exception\<close>.
\<close>

definition console_accepts :: "'m env \<Rightarrow> bool" where
  "console_accepts env = (\<forall>s t. print_refused env s t = None)"

definition library_in_Exception :: "'m env \<Rightarrow> bool" where
  "library_in_Exception env =
     ((\<forall>n f e g. yolo_load env n f = (Inl e, g) \<longrightarrow> is_Exception e) \<and>
      (\<forall>m k f e g. yolo_export env m k f = (Inl e, g) \<longrightarrow> is_Exception e))"

text \<open>The notice that opens the processing of a checkpoint.\<close>

definition is_processing_notice :: "event \<Rightarrow> bool" where
  "is_processing_notice ev =
     (case ev of Print s \<Rightarrow> startswith s (CHR 0x0A # ''Processing '') | _ \<Rightarrow> False)"



subsection \<open>A sample run\<close>

text \<open>
  A library and an operating system for the examples. The model object is the checkpoint
  name. Loading fails for \<open>yolo26m-pose.pt\<close>, exporting fails for \<open>yolo26l-pose.pt\<close>, the
  export of \<open>yolo26x-pose.pt\<close> reports a file it did not write, and the operating
  system refuses to move \<open>yolo26n-seg.onnx\<close>. Every other export writes the artifact
  beside the checkpoint. The console accepts every line.
\<close>

definition sample_env :: "string env" where
  "sample_env =
     \<lparr>script_file = ''scripts/export_yolo_onnx.py'',
      print_refused = (\<lambda>s t. None),
      makedirs_refused = (\<lambda>name f. None),
      yolo_load = (\<lambda>name f.
        if name = ''yolo26m-pose.pt''
        then (Inl (Exn ''RuntimeError'' ''invalid checkpoint''), f)
        else (Inr name, f)),
      yolo_export = (\<lambda>model kwargs f.
        if model = ''yolo26l-pose.pt''
        then (Inl (Exn ''RuntimeError'' ''unsupported operator''), f)
        else if model = ''yolo26x-pose.pt'' then (Inr ''yolo26x-pose.onnx'', f)
        else (Inr (take (length model - 3) model @ ''.onnx''),
              f(take (length model - 3) model @ ''.onnx'' \<mapsto> File (''onnx of '' @ model)))),
      rename_refused = (\<lambda>src dst f.
        if src = ''yolo26n-seg.onnx''
        then Some (''PermissionError'', ''[Errno 13] Permission denied'')
        else None)\<rparr>"

text \<open>
  Six checkpoints are on disk, \<open>yolo26s-pose.pt\<close> and three others are not; the
  destination directory holds an artifact of an earlier run and a file of its own.
\<close>

definition sample_fs :: filesystem where
  "sample_fs =
     [''yolo26n-pose.pt'' \<mapsto> File ''weights n-pose'',
      ''yolo26m-pose.pt'' \<mapsto> File ''weights m-pose'',
      ''yolo26l-pose.pt'' \<mapsto> File ''weights l-pose'',
      ''yolo26x-pose.pt'' \<mapsto> File ''weights x-pose'',
      ''yolo26n-seg.pt'' \<mapsto> File ''weights n-seg'',
      ''yolo26s-seg.pt'' \<mapsto> File ''weights s-seg'',
      ''scripts'' \<mapsto> Directory,
      ''scripts/..'' \<mapsto> Directory,
      ''scripts/../public'' \<mapsto> Directory,
      ''scripts/../public/models'' \<mapsto> Directory,
      ''scripts/../public/models/yolo26'' \<mapsto> Directory,
      ''scripts/../public/models/yolo26/yolo26n-pose.onnx'' \<mapsto> File ''old artifact'',
      ''scripts/../public/models/yolo26/README.txt'' \<mapsto> File ''notes'']"

definition sample_world :: world where
  "sample_world = \<lparr>fs = sample_fs, trace = []\<rparr>"

text \<open>A fresh checkout: only the script's directory and one checkpoint exist.\<close>

definition fresh_world :: world where
  "fresh_world =
     \<lparr>fs = [''scripts'' \<mapsto> Directory, ''yolo26n-pose.pt'' \<mapsto> File ''weights n-pose''],
      trace = []\<rparr>"

text \<open>A world in which the destination cannot be created: \<open>scripts\<close> is a file.\<close>

definition blocked_world :: world where
  "blocked_world =
     \<lparr>fs = [''scripts'' \<mapsto> File ''not a directory'',
            ''yolo26n-pose.pt'' \<mapsto> File ''weights n-pose''],
      trace = []\<rparr>"

text \<open>
  The same library, interrupted: the user presses Ctrl-C while \<open>yolo26n-pose.pt\<close> is
  exported, and the library lets the \<open>KeyboardInterrupt\<close> pass.
\<close>

definition interrupted_env :: "string env" where
  "interrupted_env =
     sample_env\<lparr>yolo_export := (\<lambda>model kwargs f.
        if model = ''yolo26n-pose.pt'' then (Inl (BaseExn ''KeyboardInterrupt'' []), f)
        else yolo_export sample_env model kwargs f)\<rparr>"

text \<open>
  The same library with the standard output on a full device: the console takes the
  first line and refuses every later one.
\<close>

definition full_console_env :: "string env" where
  "full_console_env =
     sample_env\<lparr>print_refused := (\<lambda>s t.
        if list_ex (\<lambda>ev. case ev of Print x \<Rightarrow> True | _ \<Rightarrow> False) t
        then Some (Exn ''OSError'' ''[Errno 28] No space left on device'')
        else None)\<rparr>"

section \<open>Properties\<close>

subsection \<open>Auxiliary facts\<close>

lemma fs_record_event [simp]: "fs (record_event ev w) = fs w"
  by (simp add: record_event_def)

lemma trace_record_event [simp]: "trace (record_event ev w) = trace w @ [ev]"
  by (simp add: record_event_def)

lemma fs_print_line [simp]: "fs (snd (print_line env s w)) = fs w"
  by (simp add: print_line_def split: option.splits)

lemma print_line_accepted:
  "console_accepts env \<Longrightarrow> print_line env s w = (Inr (), record_event (Print s) w)"
  by (simp add: print_line_def console_accepts_def)

lemma print_line_trace:
  "trace (snd (print_line env s w)) = trace w \<or>
   trace (snd (print_line env s w)) = trace w @ [Print s]"
  by (simp add: print_line_def split: option.splits)

lemmas try_defs = try_block_def os_path_exists_def YOLO_def model_export_def os_rename_def

lemma rename_result_is_Exception: "rename_result env p d f = Inl e \<Longrightarrow> is_Exception e"
  by (auto simp add: rename_result_def split: option.splits node.splits prod.splits)

lemma makedirs_result_is_Exception: "makedirs_result env p b f = Inl e \<Longrightarrow> is_Exception e"
  by (auto simp add: makedirs_result_def split: option.splits node.splits prod.splits if_splits)

lemma load_in_Exception:
  "library_in_Exception env \<Longrightarrow> yolo_load env n f = (Inl e, g) \<Longrightarrow> is_Exception e"
  unfolding library_in_Exception_def by blast

lemma export_in_Exception:
  "library_in_Exception env \<Longrightarrow> yolo_export env m k f = (Inl e, g) \<Longrightarrow> is_Exception e"
  unfolding library_in_Exception_def by blast

lemma try_block_in_Exception:
  assumes "console_accepts env" and "library_in_Exception env"
    and "fst (try_block env tdir n w) = Inl e"
  shows "is_Exception e"
proof (cases "fs w n = None")
  case True
  with assms show ?thesis
    by (simp add: try_defs print_line_accepted)
next
  case False
  obtain r f1 where l: "yolo_load env n (fs w) = (r, f1)"
    by (cases "yolo_load env n (fs w)")
  show ?thesis
  proof (cases r)
    case (Inl e1)
    with assms(1,3) False l load_in_Exception [OF assms(2), of n "fs w" e1 f1] show ?thesis
      by (auto simp add: try_defs)
  next
    case (Inr m)
    obtain r2 f2 where x: "yolo_export env m export_options f1 = (r2, f2)"
      by (cases "yolo_export env m export_options f1")
    show ?thesis
    proof (cases r2)
      case (Inl e2)
      with assms(1,3) False l Inr x
        export_in_Exception [OF assms(2), of m export_options f1 e2 f2] show ?thesis
        by (auto simp add: try_defs)
    next
      case p: (Inr p)
      show ?thesis
      proof (cases "rename_result env p (final_path tdir n) f2")
        case (Inl e3)
        with assms(1,3) False l Inr x p rename_result_is_Exception [OF Inl] show ?thesis
          by (auto simp add: try_defs print_line_accepted split: if_splits)
      next
        case (Inr f3)
        with assms(1,3) False l \<open>r = Inr m\<close> x p show ?thesis
          by (auto simp add: try_defs print_line_accepted split: if_splits)
      qed
    qed
  qed
qed

lemma loop_body_returns:
  assumes "console_accepts env" and "library_in_Exception env"
  shows "fst (loop_body env tdir n w) = Inr ()"
proof -
  let ?w0 = "record_event (Print (processing_line n)) w"
  obtain r w1 where t: "try_block env tdir n ?w0 = (r, w1)"
    by (cases "try_block env tdir n ?w0")
  show ?thesis
  proof (cases r)
    case (Inl e)
    with t try_block_in_Exception [OF assms, of tdir n ?w0 e] have "is_Exception e" by simp
    with Inl t assms(1) show ?thesis
      by (simp add: loop_body_def print_line_accepted)
  next
    case (Inr u)
    with t assms(1) show ?thesis
      by (simp add: loop_body_def print_line_accepted)
  qed
qed

lemma processing_line_notice [simp]: "is_processing_notice (Print (processing_line n))"
  by (simp add: is_processing_notice_def processing_line_def startswith_def)

lemma other_lines_notice [simp]:
  "\<not> is_processing_notice (Print (skipping_line n))"
  "\<not> is_processing_notice (Print (warning_line p))"
  "\<not> is_processing_notice (Print (success_line tdir n))"
  "\<not> is_processing_notice (Print (error_line n e))"
  "\<not> is_processing_notice (PathExists p b)"
  "\<not> is_processing_notice (YoloLoad n)"
  "\<not> is_processing_notice (ModelExport a)"
  "\<not> is_processing_notice (Rename p q)"
  "\<not> is_processing_notice (Makedirs p b)"
  by (simp_all add: is_processing_notice_def skipping_line_def warning_line_def
        success_line_def error_line_def startswith_def)

text \<open>What a pass adds to the trace, whatever the console and the library do.\<close>

lemma print_line_adds:
  "\<exists>evs. trace (snd (print_line env s w)) = trace w @ evs \<and> set evs \<subseteq> {Print s}"
  by (auto simp add: print_line_def split: option.splits)

lemma try_block_trace:
  "\<exists>evs. trace (snd (try_block env tdir n w)) = trace w @ evs \<and>
         (\<forall>ev \<in> set evs. \<not> is_processing_notice ev) \<and>
         (\<forall>a. ModelExport a \<in> set evs \<longrightarrow> a = export_options)"
  by (auto simp add: try_defs print_line_def split: prod.splits sum.splits option.splits)

lemma loop_body_exports:
  "\<exists>evs. trace (snd (loop_body env tdir n w)) = trace w @ evs \<and>
         (\<forall>a. ModelExport a \<in> set evs \<longrightarrow> a = export_options)"
proof (cases "print_refused env (processing_line n) (trace w)")
  case (Some e)
  then show ?thesis
    by (simp add: loop_body_def print_line_def)
next
  case None
  let ?w0 = "record_event (Print (processing_line n)) w"
  obtain r w1 where t: "try_block env tdir n ?w0 = (r, w1)"
    by (cases "try_block env tdir n ?w0")
  obtain evs where e: "trace w1 = trace ?w0 @ evs"
    and x: "\<forall>a. ModelExport a \<in> set evs \<longrightarrow> a = export_options"
    using try_block_trace [of env tdir n ?w0] t by auto
  obtain evs2 where p: "\<And>s. trace (snd (print_line env s w1)) = trace w1 @ evs2 s"
    and q: "\<And>s. set (evs2 s) \<subseteq> {Print s}"
    using print_line_adds [of env _ w1] by metis
  show ?thesis
  proof (cases r)
    case (Inl ex)
    show ?thesis
    proof (cases "is_Exception ex")
      case True
      have "trace (snd (loop_body env tdir n w)) =
          trace w @ (Print (processing_line n) # evs @ evs2 (error_line n ex))"
        using None t Inl True e p by (simp add: loop_body_def print_line_def)
      moreover have "\<forall>a. ModelExport a \<in> set (Print (processing_line n) # evs @
          evs2 (error_line n ex)) \<longrightarrow> a = export_options"
        using x q [of "error_line n ex"] by auto
      ultimately show ?thesis by blast
    next
      case False
      have "trace (snd (loop_body env tdir n w)) = trace w @ (Print (processing_line n) # evs)"
        using None t Inl False e by (simp add: loop_body_def print_line_def)
      with x show ?thesis by auto
    qed
  next
    case (Inr u)
    have "trace (snd (loop_body env tdir n w)) = trace w @ (Print (processing_line n) # evs)"
      using None t Inr e by (simp add: loop_body_def print_line_def)
    with x show ?thesis by auto
  qed
qed

lemma for_loop_exports:
  "\<exists>evs. trace (snd (for_loop (loop_body env tdir) names w)) = trace w @ evs \<and>
         (\<forall>a. ModelExport a \<in> set evs \<longrightarrow> a = export_options)"
proof (induction names arbitrary: w)
  case Nil
  show ?case by simp
next
  case (Cons x xs)
  obtain r w1 where b: "loop_body env tdir x w = (r, w1)"
    by (cases "loop_body env tdir x w")
  obtain evs1 where t1: "trace w1 = trace w @ evs1"
    and e1: "\<forall>a. ModelExport a \<in> set evs1 \<longrightarrow> a = export_options"
    using loop_body_exports [of env tdir x w] b by auto
  show ?case
  proof (cases r)
    case (Inl e)
    with b t1 e1 show ?thesis by auto
  next
    case (Inr u)
    obtain evs2 where t2: "trace (snd (for_loop (loop_body env tdir) xs w1)) = trace w1 @ evs2"
      and e2: "\<forall>a. ModelExport a \<in> set evs2 \<longrightarrow> a = export_options"
      using Cons.IH [of w1] by blast
    have "trace (snd (for_loop (loop_body env tdir) (x # xs) w)) = trace w @ (evs1 @ evs2)"
      using b Inr t1 t2 by simp
    moreover have "\<forall>a. ModelExport a \<in> set (evs1 @ evs2) \<longrightarrow> a = export_options"
      using e1 e2 by auto
    ultimately show ?thesis by blast
  qed
qed

lemma loop_body_trace:
  assumes "console_accepts env"
  shows "\<exists>evs. trace (snd (loop_body env tdir n w)) =
             trace w @ Print (processing_line n) # evs \<and>
         (\<forall>ev \<in> set evs. \<not> is_processing_notice ev)"
proof -
  let ?w0 = "record_event (Print (processing_line n)) w"
  obtain r w1 where t: "try_block env tdir n ?w0 = (r, w1)"
    by (cases "try_block env tdir n ?w0")
  obtain evs where e: "trace w1 = trace ?w0 @ evs"
    and x: "\<forall>ev \<in> set evs. \<not> is_processing_notice ev"
    using try_block_trace [of env tdir n ?w0] t by auto
  show ?thesis
  proof (cases r)
    case (Inl ex)
    show ?thesis
    proof (cases "is_Exception ex")
      case True
      have "trace (snd (loop_body env tdir n w)) =
          trace w @ Print (processing_line n) # (evs @ [Print (error_line n ex)])"
        using assms t Inl True e by (simp add: loop_body_def print_line_accepted)
      moreover have "\<forall>ev \<in> set (evs @ [Print (error_line n ex)]). \<not> is_processing_notice ev"
        using x by auto
      ultimately show ?thesis by blast
    next
      case False
      have "trace (snd (loop_body env tdir n w)) = trace w @ Print (processing_line n) # evs"
        using assms t Inl False e by (simp add: loop_body_def print_line_accepted)
      with x show ?thesis by blast
    qed
  next
    case (Inr u)
    have "trace (snd (loop_body env tdir n w)) = trace w @ Print (processing_line n) # evs"
      using assms t Inr e by (simp add: loop_body_def print_line_accepted)
    with x show ?thesis by blast
  qed
qed

lemma for_loop_body_returns:
  assumes "console_accepts env" and "library_in_Exception env"
  shows "for_loop (loop_body env tdir) names w =
     (Inr (), foldl (\<lambda>v x. snd (loop_body env tdir x v)) w names)"
proof (induction names arbitrary: w)
  case Nil
  show ?case by simp
next
  case (Cons x xs)
  have "fst (loop_body env tdir x w) = Inr ()" by (rule loop_body_returns [OF assms])
  then obtain w1 where b: "loop_body env tdir x w = (Inr (), w1)"
    by (cases "loop_body env tdir x w") auto
  with Cons show ?case by simp
qed

lemma for_loop_append:
  assumes "console_accepts env" and "library_in_Exception env"
  shows "for_loop (loop_body env tdir) (xs @ ys) w =
     for_loop (loop_body env tdir) ys (snd (for_loop (loop_body env tdir) xs w))"
  by (simp add: for_loop_body_returns [OF assms])

lemma for_loop_step:
  "fst (loop_body env tdir n w) = Inr () \<Longrightarrow>
   for_loop (loop_body env tdir) (n # rest) w =
     for_loop (loop_body env tdir) rest (snd (loop_body env tdir n w))"
  by (cases "loop_body env tdir n w") auto

lemma for_loop_cut:
  assumes "console_accepts env" and "library_in_Exception env"
  shows "for_loop (loop_body env tdir) (before @ n # rest) w =
     for_loop (loop_body env tdir) rest
       (snd (loop_body env tdir n (snd (for_loop (loop_body env tdir) before w))))"
proof -
  let ?reached = "snd (for_loop (loop_body env tdir) before w)"
  have "for_loop (loop_body env tdir) (n # rest) ?reached =
      for_loop (loop_body env tdir) rest (snd (loop_body env tdir n ?reached))"
    by (rule for_loop_step) (rule loop_body_returns [OF assms])
  then show ?thesis
    by (simp only: for_loop_append [OF assms])
qed

lemma for_loop_trace:
  assumes "console_accepts env" and "library_in_Exception env"
  shows "\<exists>evs. trace (snd (for_loop (loop_body env tdir) names w)) = trace w @ evs \<and>
         filter is_processing_notice evs = map (\<lambda>n. Print (processing_line n)) names"
proof (induction names arbitrary: w)
  case Nil
  show ?case by simp
next
  case (Cons x xs)
  obtain w1 where b: "loop_body env tdir x w = (Inr (), w1)"
    using loop_body_returns [OF assms, of tdir x w] by (cases "loop_body env tdir x w") auto
  obtain evs1 where t1: "trace w1 = trace w @ Print (processing_line x) # evs1"
    and n1: "\<forall>ev \<in> set evs1. \<not> is_processing_notice ev"
    using loop_body_trace [OF assms(1), of tdir x w] b by auto
  obtain evs2 where t2: "trace (snd (for_loop (loop_body env tdir) xs w1)) = trace w1 @ evs2"
    and n2: "filter is_processing_notice evs2 = map (\<lambda>n. Print (processing_line n)) xs"
    using Cons.IH [of w1] by blast
  have f1: "filter is_processing_notice evs1 = []"
    using n1 by (simp add: filter_empty_conv)
  show ?case
  proof (intro exI conjI)
    show "trace (snd (for_loop (loop_body env tdir) (x # xs) w)) =
          trace w @ (Print (processing_line x) # evs1 @ evs2)"
      using b t1 t2 by simp
    show "filter is_processing_notice (Print (processing_line x) # evs1 @ evs2) =
          map (\<lambda>n. Print (processing_line n)) (x # xs)"
      using f1 n2 by simp
  qed
qed

lemma for_loop_notices:
  assumes "console_accepts env" and "library_in_Exception env"
  shows "filter is_processing_notice
     (drop (length (trace w)) (trace (snd (for_loop (loop_body env tdir) names w)))) =
   map (\<lambda>x. Print (processing_line x)) names"
  using for_loop_trace [OF assms, of tdir names w] by auto

text \<open>The passes of a run whose console accepts every line, case by case.\<close>

lemmas pass_defs = loop_body_def try_defs print_line_accepted


lemma loop_body_load_raises:
  assumes "console_accepts env" and "fs w n \<noteq> None"
    and "yolo_load env n (fs w) = (Inl e, f1)" and "is_Exception e"
  shows "fst (loop_body env tdir n w) = Inr ()"
    and "fs (snd (loop_body env tdir n w)) = f1"
    and "trace (snd (loop_body env tdir n w)) =
           trace w @ [Print (processing_line n), PathExists n True, YoloLoad n,
                      Print (error_line n e)]"
  using assms by (auto simp add: pass_defs)

lemma loop_body_export_raises:
  assumes "console_accepts env" and "fs w n \<noteq> None"
    and "yolo_load env n (fs w) = (Inr m, f1)"
    and "yolo_export env m export_options f1 = (Inl e, f2)" and "is_Exception e"
  shows "fst (loop_body env tdir n w) = Inr ()"
    and "fs (snd (loop_body env tdir n w)) = f2"
    and "trace (snd (loop_body env tdir n w)) =
           trace w @ [Print (processing_line n), PathExists n True, YoloLoad n,
                      ModelExport export_options, Print (error_line n e)]"
  using assms by (auto simp add: pass_defs)



lemma loop_body_moved:
  assumes "console_accepts env" and "fs w n \<noteq> None"
    and "yolo_load env n (fs w) = (Inr m, f1)"
    and "yolo_export env m export_options f1 = (Inr p, f2)" and "f2 p \<noteq> None"
    and "rename_result env p (final_path tdir n) f2 = Inr f3"
  shows "fst (loop_body env tdir n w) = Inr ()"
    and "fs (snd (loop_body env tdir n w)) = f3"
    and "trace (snd (loop_body env tdir n w)) =
           trace w @ [Print (processing_line n), PathExists n True, YoloLoad n,
                      ModelExport export_options, PathExists p True,
                      Rename p (final_path tdir n), Print (success_line tdir n)]"
  using assms by (auto simp add: pass_defs)

lemma loop_body_reports_failure:
  assumes "console_accepts env" and "library_raises env n (fs w) = Some e"
    and "is_Exception e"
  shows "\<exists>evs. trace (snd (loop_body env tdir n w)) = trace w @ evs @ [Print (error_line n e)]"
proof -
  from assms(2) have ex: "fs w n \<noteq> None"
    by (auto simp add: library_raises_def split: if_splits)
  obtain r f1 where l: "yolo_load env n (fs w) = (r, f1)"
    by (cases "yolo_load env n (fs w)")
  show ?thesis
  proof (cases r)
    case (Inl e1)
    with assms(2) l ex have "e1 = e" by (simp add: library_raises_def)
    with Inl l have "yolo_load env n (fs w) = (Inl e, f1)" by simp
    from loop_body_load_raises(3) [OF assms(1) ex this assms(3), of tdir] show ?thesis
      by (intro exI [of _ "[Print (processing_line n), PathExists n True, YoloLoad n]"]) simp
  next
    case (Inr m)
    obtain r2 f2 where x: "yolo_export env m export_options f1 = (r2, f2)"
      by (cases "yolo_export env m export_options f1")
    with assms(2) l ex Inr have r2: "r2 = Inl e"
      by (cases r2) (simp_all add: library_raises_def)
    from l Inr have l': "yolo_load env n (fs w) = (Inr m, f1)" by simp
    from x r2 have x': "yolo_export env m export_options f1 = (Inl e, f2)" by simp
    from loop_body_export_raises(3) [OF assms(1) ex l' x' assms(3), of tdir] show ?thesis
      by (intro exI [of _ "[Print (processing_line n), PathExists n True, YoloLoad n,
            ModelExport export_options]"]) simp
  qed
qed

lemmas run_defs = loop_body_def try_block_def os_path_exists_def YOLO_def model_export_def
  os_rename_def rename_result_def print_line_def

text \<open>The call of \<open>os.makedirs\<close> and what follows it.\<close>

lemma os_makedirs_raises:
  "makedirs_result env p b (fs w) = Inl e \<Longrightarrow>
   os_makedirs env p b w = (Inl e, record_event (Makedirs p b) w)"
  by (simp add: os_makedirs_def)

lemma os_makedirs_returns:
  "makedirs_result env p b (fs w) = Inr f \<Longrightarrow>
   os_makedirs env p b w = (Inr (), (record_event (Makedirs p b) w)\<lparr>fs := f\<rparr>)"
  by (simp add: os_makedirs_def)

lemma export_models_raises:
  "makedirs_result env (target_dir env) True (fs w) = Inl e \<Longrightarrow>
   export_models env w = (Inl e, record_event (Makedirs (target_dir env) True) w)"
  by (simp add: export_models_def os_makedirs_raises)

lemma export_models_returns:
  "makedirs_result env (target_dir env) True (fs w) = Inr f \<Longrightarrow>
   export_models env w =
     (case print_line env (''Exporting models to '' @ target_dir env @ ''...'')
             ((record_event (Makedirs (target_dir env) True) w)\<lparr>fs := f\<rparr>) of
        (Inl e, w2) \<Rightarrow> (Inl e, w2)
      | (Inr u, w2) \<Rightarrow> for_loop (loop_body env (target_dir env)) model_names w2)"
  by (simp add: export_models_def os_makedirs_returns)

lemma export_models_trace:
  "\<exists>evs. trace (snd (export_models env w)) = trace w @ Makedirs (target_dir env) True # evs \<and>
         (\<forall>a. ModelExport a \<in> set evs \<longrightarrow> a = export_options)"
proof (cases "makedirs_result env (target_dir env) True (fs w)")
  case (Inl e)
  then show ?thesis by (simp add: export_models_raises)
next
  case (Inr f)
  let ?banner = "''Exporting models to '' @ target_dir env @ ''...''"
  let ?w1 = "(record_event (Makedirs (target_dir env) True) w)\<lparr>fs := f\<rparr>"
  show ?thesis
  proof (cases "print_refused env ?banner (trace ?w1)")
    case (Some e)
    then show ?thesis
      by (simp add: export_models_returns [OF Inr] print_line_def)
  next
    case None
    let ?w2 = "record_event (Print ?banner) ?w1"
    obtain evs where t: "trace (snd (for_loop (loop_body env (target_dir env)) model_names ?w2)) =
        trace ?w2 @ evs"
      and x: "\<forall>a. ModelExport a \<in> set evs \<longrightarrow> a = export_options"
      using for_loop_exports [of env "target_dir env" model_names ?w2] by blast
    show ?thesis
    proof (intro exI conjI)
      show "trace (snd (export_models env w)) =
          trace w @ Makedirs (target_dir env) True # (Print ?banner # evs)"
        using t None by (simp add: export_models_returns [OF Inr] print_line_def)
      show "\<forall>a. ModelExport a \<in> set (Print ?banner # evs) \<longrightarrow> a = export_options"
        using x by simp
    qed
  qed
qed

lemma mkdir_missing_at:
  "mkdir_missing ds f p = (if f p = None \<and> p \<in> set ds then Some Directory else f p)"
proof (induction ds arbitrary: f)
  case Nil
  show ?case by (simp add: mkdir_missing_def)
next
  case (Cons d ds)
  have "mkdir_missing (d # ds) f =
      mkdir_missing ds (if f d = None then f(d \<mapsto> Directory) else f)"
    by (simp add: mkdir_missing_def)
  then show ?case
    using Cons.IH [of "if f d = None then f(d \<mapsto> Directory) else f"] by auto
qed

lemma makedirs_result_creates:
  assumes "makedirs_result env name True f = Inr g"
  shows "g name = Some Directory"
    and "f name = None \<Longrightarrow> d \<in> set (ancestors name) \<Longrightarrow> g d = Some Directory"
    and "f p \<noteq> None \<Longrightarrow> g p = f p"
proof -
  from assms have nf: "\<not> list_ex (\<lambda>d. is_file (f d)) (ancestors name)"
    by (auto simp add: makedirs_result_def split: option.splits prod.splits if_splits)
  show "g name = Some Directory"
    using assms nf
    by (auto simp add: makedirs_result_def mkdir_missing_at
        split: option.splits prod.splits node.splits)
  show "g p = f p" if "f p \<noteq> None"
    using assms nf that
    by (auto simp add: makedirs_result_def mkdir_missing_at
        split: option.splits prod.splits node.splits)
  show "g d = Some Directory" if "f name = None" and d: "d \<in> set (ancestors name)"
  proof -
    from assms nf that have g: "g = mkdir_missing (ancestors name @ [name]) f"
      by (simp add: makedirs_result_def split: option.splits prod.splits)
    from nf d have "\<not> is_file (f d)"
      by (auto simp add: list_ex_iff)
    then have "f d = None \<or> f d = Some Directory"
      by (cases "f d") (auto simp add: is_file_def split: node.splits)
    with d show ?thesis
      by (auto simp add: g mkdir_missing_at)
  qed
qed


text \<open>The destination directory and the file names of the listed checkpoints.\<close>

lemma join2_relative:
  "\<not> startswith b ''/'' \<Longrightarrow> d \<noteq> [] \<Longrightarrow> \<not> endswith d ''/'' \<Longrightarrow> join2 d b = d @ ''/'' @ b"
  by (simp add: join2_def)

lemma join2_yolo26: "\<exists>y. join2 x ''yolo26'' = y @ ''yolo26''"
  by (simp add: join2_def startswith_def)

lemma target_dir_shape: "target_dir env \<noteq> [] \<and> \<not> endswith (target_dir env) ''/''"
proof -
  have "\<exists>y. target_dir env = y @ ''yolo26''"
    unfolding target_dir_def os_path_join_def foldl_Cons foldl_Nil by (rule join2_yolo26)
  then obtain y where y: "target_dir env = y @ ''yolo26''" ..
  have "\<not> endswith (y @ ''yolo26'') ''/''"
    by (simp add: endswith_def)
  with y show ?thesis by simp
qed

lemma onnx_filename_names:
  "list_all (\<lambda>n. onnx_filename n = replace_extension n ''.onnx'' \<and>
                 \<not> startswith (onnx_filename n) ''/'') model_names"
  by (simp add: onnx_filename_def model_names_def str_replace.simps startswith_def
      replace_extension_def splitext_root_def Let_def)


text \<open>
  Outside the list the two readings part: \<open>replace\<close> rewrites every \<open>.pt\<close> in a name.
\<close>

lemma replace_reaches_every_occurrence:
  "onnx_filename ''last.pth.pt'' = ''last.onnxh.onnx''"
  "replace_extension ''last.pth.pt'' ''.onnx'' = ''last.pth.onnx''"
  by (simp_all add: onnx_filename_def str_replace.simps startswith_def
      replace_extension_def splitext_root_def Let_def)

text \<open>The paths of the sample run.\<close>

lemma target_dir_sample: "target_dir sample_env = ''scripts/../public/models/yolo26''"
  by (simp add: target_dir_def sample_env_def os_path_join_def os_path_dirname_def join2_def
      startswith_def endswith_def rstrip_sep_def Let_def)

lemma final_path_sample:
  "final_path ''scripts/../public/models/yolo26'' ''yolo26n-pose.pt'' =
     ''scripts/../public/models/yolo26/yolo26n-pose.onnx''"
  "final_path ''scripts/../public/models/yolo26'' ''yolo26n-seg.pt'' =
     ''scripts/../public/models/yolo26/yolo26n-seg.onnx''"
  by (simp_all add: final_path_def onnx_filename_def str_replace.simps startswith_def
      os_path_join_def join2_def endswith_def)

lemma ancestors_sample:
  "ancestors ''scripts/../public/models/yolo26'' =
     [''scripts'', ''scripts/..'', ''scripts/../public'', ''scripts/../public/models'']"
  by (simp add: ancestors.simps os_path_dirname_def rstrip_sep_def Let_def)

lemma makedirs_fresh:
  "makedirs_result sample_env ''scripts/../public/models/yolo26'' True (fs fresh_world) =
     Inr ((fs fresh_world)
       (''scripts/..'' \<mapsto> Directory, ''scripts/../public'' \<mapsto> Directory,
        ''scripts/../public/models'' \<mapsto> Directory,
        ''scripts/../public/models/yolo26'' \<mapsto> Directory))"
  by (simp add: makedirs_result_def sample_env_def fresh_world_def ancestors_sample
      is_file_def mkdir_missing_def)

lemma makedirs_blocked:
  "makedirs_result sample_env ''scripts/../public/models/yolo26'' True (fs blocked_world) =
     Inl (Exn ''NotADirectoryError''
            ''[Errno 20] Not a directory: scripts/../public/models/yolo26'')"
  by (simp add: makedirs_result_def sample_env_def blocked_world_def ancestors_sample
      is_file_def)

lemma sample_console: "console_accepts sample_env"
  by (simp add: console_accepts_def sample_env_def)

lemma sample_library: "library_in_Exception sample_env"
  by (auto simp add: library_in_Exception_def sample_env_def split: if_splits)

lemma library_raises_in_Exception:
  "library_raises env n f = Some e \<Longrightarrow> library_in_Exception env \<Longrightarrow> is_Exception e"
  by (auto simp add: library_raises_def split: if_splits prod.splits sum.splits
      dest: load_in_Exception export_in_Exception)








subsection \<open>Claims\<close>

text \<open>
  C1, as the code has it. Let the console accept every line and the library raise
  nothing but instances of \<open>Exception\<close>. Take any list of names and any name \<open>n\<close> in it,
  with the names \<open>before\<close> it and the \<open>rest\<close> after it. If the library raises while \<open>n\<close>
  is loaded or exported, the pass for \<open>n\<close> ends by printing the error line, which carries
  the name and the text of the exception. Whatever happens, the pass returns normally,
  the loop goes on with the rest from the world the pass left, the whole loop returns
  normally, and the processing notices it printed are those of every name of the list,
  in order.
\<close>

theorem failure_isolated_per_checkpoint:
  assumes "console_accepts env" and "library_in_Exception env"
  shows
  "(let body = loop_body env tdir;
        reached = snd (for_loop body before w);
        left = snd (body n reached)
    in (library_raises env n (fs reached) = Some e \<longrightarrow>
          (\<exists>evs. trace left =
             trace reached @ evs @ [Print (''Error exporting '' @ n @ '': '' @ exn_str e)])) \<and>
       fst (body n reached) = Inr () \<and>
       for_loop body (before @ n # rest) w = for_loop body rest left \<and>
       fst (for_loop body (before @ n # rest) w) = Inr () \<and>
       filter is_processing_notice
         (drop (length (trace w)) (trace (snd (for_loop body (before @ n # rest) w)))) =
       map (\<lambda>x. Print (CHR 0x0A # ''Processing '' @ x @ ''...'')) (before @ n # rest))"
proof -
  let ?body = "loop_body env tdir"
  let ?reached = "snd (for_loop ?body before w)"
  have a: "library_raises env n (fs ?reached) = Some e \<longrightarrow>
      (\<exists>evs. trace (snd (?body n ?reached)) =
         trace ?reached @ evs @ [Print (''Error exporting '' @ n @ '': '' @ exn_str e)])"
  proof
    assume r: "library_raises env n (fs ?reached) = Some e"
    from r assms(2) have "is_Exception e"
      by (rule library_raises_in_Exception)
    from loop_body_reports_failure [OF assms(1) r this, of tdir]
    show "\<exists>evs. trace (snd (?body n ?reached)) =
         trace ?reached @ evs @ [Print (''Error exporting '' @ n @ '': '' @ exn_str e)]"
      by (simp add: error_line_def)
  qed
  have b: "fst (?body n ?reached) = Inr ()"
    by (rule loop_body_returns [OF assms])
  have c: "for_loop ?body (before @ n # rest) w = for_loop ?body rest (snd (?body n ?reached))"
    by (rule for_loop_cut [OF assms])
  have d: "fst (for_loop ?body (before @ n # rest) w) = Inr ()"
    by (simp only: for_loop_body_returns [OF assms] fst_conv)
  have e: "filter is_processing_notice
         (drop (length (trace w)) (trace (snd (for_loop ?body (before @ n # rest) w)))) =
       map (\<lambda>x. Print (CHR 0x0A # ''Processing '' @ x @ ''...'')) (before @ n # rest)"
    using for_loop_notices [OF assms, of w tdir "before @ n # rest"]
    by (simp only: processing_line_def)
  from a b c d e show ?thesis
    unfolding Let_def by blast
qed

text \<open>
  The sample run: loading \<open>yolo26m-pose.pt\<close> fails after one checkpoint was exported and
  one skipped; \<open>yolo26l-pose.pt\<close> is processed after it.
\<close>

theorem failure_isolated_per_checkpoint_witness:
  "console_accepts sample_env \<and> library_in_Exception sample_env \<and>
   library_raises sample_env ''yolo26m-pose.pt''
     (fs (snd (for_loop (loop_body sample_env ''scripts/../public/models/yolo26'')
                 [''yolo26n-pose.pt'', ''yolo26s-pose.pt''] sample_world))) =
     Some (Exn ''RuntimeError'' ''invalid checkpoint'') \<and>
   (\<exists>evs. trace (snd (loop_body sample_env ''scripts/../public/models/yolo26'' ''yolo26m-pose.pt''
              (snd (for_loop (loop_body sample_env ''scripts/../public/models/yolo26'')
                      [''yolo26n-pose.pt'', ''yolo26s-pose.pt''] sample_world)))) =
      trace (snd (for_loop (loop_body sample_env ''scripts/../public/models/yolo26'')
                      [''yolo26n-pose.pt'', ''yolo26s-pose.pt''] sample_world)) @ evs @
      [Print ''Error exporting yolo26m-pose.pt: invalid checkpoint'']) \<and>
   filter is_processing_notice
     (trace (snd (for_loop (loop_body sample_env ''scripts/../public/models/yolo26'')
        [''yolo26n-pose.pt'', ''yolo26s-pose.pt'', ''yolo26m-pose.pt'', ''yolo26l-pose.pt'']
        sample_world))) =
     [Print (CHR 0x0A # ''Processing yolo26n-pose.pt...''),
      Print (CHR 0x0A # ''Processing yolo26s-pose.pt...''),
      Print (CHR 0x0A # ''Processing yolo26m-pose.pt...''),
      Print (CHR 0x0A # ''Processing yolo26l-pose.pt...'')]"
proof -
  let ?d = "''scripts/../public/models/yolo26''"
  let ?e = "Exn ''RuntimeError'' ''invalid checkpoint''"
  have h: "library_raises sample_env ''yolo26m-pose.pt''
     (fs (snd (for_loop (loop_body sample_env ?d)
                 [''yolo26n-pose.pt'', ''yolo26s-pose.pt''] sample_world))) = Some ?e"
    by (simp add: run_defs library_raises_def sample_env_def sample_world_def sample_fs_def
        final_path_sample)
  have t: "trace sample_world = []"
    by (simp add: sample_world_def)
  note c = failure_isolated_per_checkpoint [OF sample_console sample_library, of ?d
        "[''yolo26n-pose.pt'', ''yolo26s-pose.pt'']" sample_world "''yolo26m-pose.pt''" ?e
        "[''yolo26l-pose.pt'']", unfolded Let_def]
  from c [THEN conjunct1] h have r: "\<exists>evs. trace (snd (loop_body sample_env ?d ''yolo26m-pose.pt''
              (snd (for_loop (loop_body sample_env ?d)
                      [''yolo26n-pose.pt'', ''yolo26s-pose.pt''] sample_world)))) =
      trace (snd (for_loop (loop_body sample_env ?d)
                      [''yolo26n-pose.pt'', ''yolo26s-pose.pt''] sample_world)) @ evs @
      [Print ''Error exporting yolo26m-pose.pt: invalid checkpoint'']"
    by simp
  from c [THEN conjunct2, THEN conjunct2, THEN conjunct2, THEN conjunct2] t
  have n: "filter is_processing_notice
     (trace (snd (for_loop (loop_body sample_env ?d)
        [''yolo26n-pose.pt'', ''yolo26s-pose.pt'', ''yolo26m-pose.pt'', ''yolo26l-pose.pt'']
        sample_world))) =
     [Print (CHR 0x0A # ''Processing yolo26n-pose.pt...''),
      Print (CHR 0x0A # ''Processing yolo26s-pose.pt...''),
      Print (CHR 0x0A # ''Processing yolo26m-pose.pt...''),
      Print (CHR 0x0A # ''Processing yolo26l-pose.pt...'')]"
    by (simp del: for_loop.simps)
  from sample_console sample_library h r n show ?thesis
    by (intro conjI)
qed

text \<open>
  C1, as the specification has it, fails in two ways. An exception that is not an
  instance of \<open>Exception\<close> passes \<open>except Exception\<close>: when the export of the first
  checkpoint is interrupted, the \<open>KeyboardInterrupt\<close> leaves the loop, no error line is
  printed and the second checkpoint is never looked at. And the \<open>print\<close> of the handler
  is outside the \<open>try\<close>: with the standard output on a full device, the error line of
  the first checkpoint cannot be printed and the \<open>OSError\<close> leaves the loop.
\<close>

theorem failure_isolated_counterexample:
  "library_raises interrupted_env ''yolo26n-pose.pt'' (fs sample_world) =
     Some (BaseExn ''KeyboardInterrupt'' []) \<and>
   fst (for_loop (loop_body interrupted_env ''scripts/../public/models/yolo26'')
          [''yolo26n-pose.pt'', ''yolo26s-pose.pt''] sample_world) =
     Inl (BaseExn ''KeyboardInterrupt'' []) \<and>
   trace (snd (for_loop (loop_body interrupted_env ''scripts/../public/models/yolo26'')
          [''yolo26n-pose.pt'', ''yolo26s-pose.pt''] sample_world)) =
     [Print (CHR 0x0A # ''Processing yolo26n-pose.pt...''),
      PathExists ''yolo26n-pose.pt'' True, YoloLoad ''yolo26n-pose.pt'',
      ModelExport export_options] \<and>
   fst (for_loop (loop_body full_console_env ''scripts/../public/models/yolo26'')
          [''yolo26n-pose.pt'', ''yolo26s-pose.pt''] sample_world) =
     Inl (Exn ''OSError'' ''[Errno 28] No space left on device'') \<and>
   trace (snd (for_loop (loop_body full_console_env ''scripts/../public/models/yolo26'')
          [''yolo26n-pose.pt'', ''yolo26s-pose.pt''] sample_world)) =
     [Print (CHR 0x0A # ''Processing yolo26n-pose.pt...''),
      PathExists ''yolo26n-pose.pt'' True, YoloLoad ''yolo26n-pose.pt'',
      ModelExport export_options, PathExists ''yolo26n-pose.onnx'' True,
      Rename ''yolo26n-pose.onnx'' ''scripts/../public/models/yolo26/yolo26n-pose.onnx'']"
  by (simp add: run_defs library_raises_def interrupted_env_def full_console_env_def
      sample_env_def sample_world_def sample_fs_def final_path_sample export_options_def
      processing_line_def success_line_def error_line_def)



text \<open>
  C3. For every name of the script's list, the file name computed by
  \<open>replace(".pt", ".onnx")\<close> is the name with its extension replaced by \<open>.onnx\<close>, and the
  destination path is the destination directory, a separator, and that file name.
\<close>

theorem destination_path_of_checkpoint:
  assumes "n \<in> set model_names"
  shows "onnx_filename n = replace_extension n ''.onnx'' \<and>
         final_path (target_dir env) n =
           target_dir env @ ''/'' @ replace_extension n ''.onnx''"
proof -
  from assms onnx_filename_names
  have a: "onnx_filename n = replace_extension n ''.onnx''"
    and b: "\<not> startswith (onnx_filename n) ''/''"
    unfolding list_all_iff by blast+
  have "final_path (target_dir env) n = join2 (target_dir env) (onnx_filename n)"
    by (simp add: final_path_def os_path_join_def)
  also have "\<dots> = target_dir env @ ''/'' @ onnx_filename n"
    using b target_dir_shape [of env] by (simp add: join2_relative)
  finally show ?thesis using a by simp
qed

text \<open>The first name of the list, with the script at \<open>scripts/export_yolo_onnx.py\<close>.\<close>

theorem destination_path_of_checkpoint_witness:
  "''yolo26n-pose.pt'' \<in> set model_names \<and>
   final_path (target_dir sample_env) ''yolo26n-pose.pt'' =
     ''scripts/../public/models/yolo26/yolo26n-pose.onnx''"
proof -
  have h: "''yolo26n-pose.pt'' \<in> set model_names"
    by (simp add: model_names_def)
  have r: "replace_extension ''yolo26n-pose.pt'' ''.onnx'' = ''yolo26n-pose.onnx''"
    by (simp add: replace_extension_def splitext_root_def Let_def)
  show ?thesis
    using h destination_path_of_checkpoint [OF h, of sample_env]
    by (simp add: target_dir_sample r)
qed



text \<open>
  C5. The first thing the script does is \<open>os.makedirs(target_dir, exist_ok=True)\<close>: every
  other event of a run, so every existence check, load and export, comes after it. When
  the call returns, the destination is a directory, the directories above it exist if it
  had to be created, what existed before is unchanged, and the script goes on from that
  file system: it prints the opening line and, if the console takes it, enters the loop
  over the checkpoints.
\<close>

theorem destination_created_first:
  "(\<exists>evs. trace (snd (export_models env w)) =
           trace w @ Makedirs (target_dir env) True # evs) \<and>
   (makedirs_result env (target_dir env) True (fs w) = Inr f \<longrightarrow>
      f (target_dir env) = Some Directory \<and>
      (fs w (target_dir env) = None \<longrightarrow>
         (\<forall>d \<in> set (ancestors (target_dir env)). f d = Some Directory)) \<and>
      (\<forall>p. fs w p \<noteq> None \<longrightarrow> f p = fs w p) \<and>
      export_models env w =
        (case print_line env (''Exporting models to '' @ target_dir env @ ''...'')
                ((record_event (Makedirs (target_dir env) True) w)\<lparr>fs := f\<rparr>) of
           (Inl e, w2) \<Rightarrow> (Inl e, w2)
         | (Inr u, w2) \<Rightarrow> for_loop (loop_body env (target_dir env)) model_names w2) \<and>
      (console_accepts env \<longrightarrow>
         export_models env w =
           for_loop (loop_body env (target_dir env)) model_names
             (record_event (Print (''Exporting models to '' @ target_dir env @ ''...''))
                ((record_event (Makedirs (target_dir env) True) w)\<lparr>fs := f\<rparr>))))"
proof (intro conjI impI)
  show "\<exists>evs. trace (snd (export_models env w)) =
           trace w @ Makedirs (target_dir env) True # evs"
    using export_models_trace [of env w] by blast
next
  assume r: "makedirs_result env (target_dir env) True (fs w) = Inr f"
  show "f (target_dir env) = Some Directory"
    by (rule makedirs_result_creates(1) [OF r])
  show "\<forall>p. fs w p \<noteq> None \<longrightarrow> f p = fs w p"
    using makedirs_result_creates(3) [OF r] by blast
  show "export_models env w =
        (case print_line env (''Exporting models to '' @ target_dir env @ ''...'')
                ((record_event (Makedirs (target_dir env) True) w)\<lparr>fs := f\<rparr>) of
           (Inl e, w2) \<Rightarrow> (Inl e, w2)
         | (Inr u, w2) \<Rightarrow> for_loop (loop_body env (target_dir env)) model_names w2)"
    by (rule export_models_returns [OF r])
  show "export_models env w =
           for_loop (loop_body env (target_dir env)) model_names
             (record_event (Print (''Exporting models to '' @ target_dir env @ ''...''))
                ((record_event (Makedirs (target_dir env) True) w)\<lparr>fs := f\<rparr>))"
    if "console_accepts env"
    using that by (simp add: export_models_returns [OF r] print_line_accepted)
  show "\<forall>d \<in> set (ancestors (target_dir env)). f d = Some Directory"
    if "fs w (target_dir env) = None"
    using that makedirs_result_creates(2) [OF r] by blast
qed

text \<open>The fresh checkout: four directories are created before anything else happens.\<close>

theorem destination_created_first_witness:
  "fs fresh_world ''scripts/../public/models/yolo26'' = None \<and>
   makedirs_result sample_env (target_dir sample_env) True (fs fresh_world) =
     Inr ((fs fresh_world)
       (''scripts/..'' \<mapsto> Directory, ''scripts/../public'' \<mapsto> Directory,
        ''scripts/../public/models'' \<mapsto> Directory,
        ''scripts/../public/models/yolo26'' \<mapsto> Directory)) \<and>
   map ((fs fresh_world)
       (''scripts/..'' \<mapsto> Directory, ''scripts/../public'' \<mapsto> Directory,
        ''scripts/../public/models'' \<mapsto> Directory,
        ''scripts/../public/models/yolo26'' \<mapsto> Directory))
     (ancestors ''scripts/../public/models/yolo26'') =
     [Some Directory, Some Directory, Some Directory, Some Directory] \<and>
   (\<exists>evs. trace (snd (export_models sample_env fresh_world)) =
      Makedirs ''scripts/../public/models/yolo26'' True # evs)"
proof -
  let ?d = "''scripts/../public/models/yolo26''"
  let ?f = "(fs fresh_world)
       (''scripts/..'' \<mapsto> Directory, ''scripts/../public'' \<mapsto> Directory,
        ''scripts/../public/models'' \<mapsto> Directory,
        ''scripts/../public/models/yolo26'' \<mapsto> Directory)"
  have h0: "fs fresh_world (target_dir sample_env) = None"
    by (simp add: target_dir_sample fresh_world_def)
  have h: "makedirs_result sample_env (target_dir sample_env) True (fs fresh_world) = Inr ?f"
    by (simp only: target_dir_sample makedirs_fresh)
  have t: "trace fresh_world = []"
    by (simp add: fresh_world_def)
  note c = destination_created_first [of sample_env fresh_world ?f]
  from c [THEN conjunct1] t
  have a: "\<exists>evs. trace (snd (export_models sample_env fresh_world)) = Makedirs ?d True # evs"
    by (simp add: target_dir_sample)
  from c [THEN conjunct2] h h0
  have b: "\<forall>d \<in> set (ancestors ?d). ?f d = Some Directory"
    by (simp only: target_dir_sample) blast
  from b have b': "map ?f (ancestors ?d) =
      [Some Directory, Some Directory, Some Directory, Some Directory]"
    by (simp add: ancestors_sample)
  from h0 h a b' show ?thesis
    by (simp only: target_dir_sample simp_thms)
qed

text \<open>
  C6. Every export that a run asks of the library carries the same keyword arguments:
  format \<open>onnx\<close>, image size 640, simplification on, dynamic shapes off, half precision
  on, opset 17. This holds whatever the console and the library do.
\<close>

theorem export_options_fixed:
  assumes "ModelExport a \<in> set (trace (snd (export_models env w)))"
    and "ModelExport a \<notin> set (trace w)"
  shows "a = \<lparr>format = ''onnx'', imgsz = 640, simplify = True, dynamic = False,
               half = True, opset = 17\<rparr>"
proof -
  obtain evs where t: "trace (snd (export_models env w)) =
      trace w @ Makedirs (target_dir env) True # evs"
    and x: "\<forall>a. ModelExport a \<in> set evs \<longrightarrow> a = export_options"
    using export_models_trace [of env w] by blast
  from assms t have "ModelExport a \<in> set evs" by auto
  with x show ?thesis by (simp add: export_options_def)
qed

text \<open>The fresh checkout: the first checkpoint is exported with these arguments.\<close>

theorem export_options_fixed_witness:
  "ModelExport \<lparr>format = ''onnx'', imgsz = 640, simplify = True, dynamic = False,
                 half = True, opset = 17\<rparr>
     \<in> set (trace (snd (export_models sample_env fresh_world))) \<and>
   ModelExport \<lparr>format = ''onnx'', imgsz = 640, simplify = True, dynamic = False,
                 half = True, opset = 17\<rparr> \<notin> set (trace fresh_world)"
proof -
  let ?a = "\<lparr>format = ''onnx'', imgsz = 640, simplify = True, dynamic = False,
                 half = True, opset = 17\<rparr>"
  let ?d = "''scripts/../public/models/yolo26''"
  let ?f = "(fs fresh_world)
       (''scripts/..'' \<mapsto> Directory, ''scripts/../public'' \<mapsto> Directory,
        ''scripts/../public/models'' \<mapsto> Directory,
        ''scripts/../public/models/yolo26'' \<mapsto> Directory)"
  let ?w0 = "record_event (Print (''Exporting models to '' @ ?d @ ''...''))
          ((record_event (Makedirs ?d True) fresh_world)\<lparr>fs := ?f\<rparr>)"
  let ?w1 = "snd (loop_body sample_env ?d ''yolo26n-pose.pt'' ?w0)"
  have r: "makedirs_result sample_env (target_dir sample_env) True (fs fresh_world) = Inr ?f"
    by (simp only: target_dir_sample makedirs_fresh)
  have m: "model_names = ''yolo26n-pose.pt'' # tl model_names"
    by (simp add: model_names_def)
  have "export_models sample_env fresh_world =
      for_loop (loop_body sample_env ?d) model_names ?w0"
    by (simp add: export_models_returns [OF r] print_line_accepted [OF sample_console]
        target_dir_sample)
  also have "\<dots> = for_loop (loop_body sample_env ?d) (''yolo26n-pose.pt'' # tl model_names) ?w0"
    using m by simp
  also have "\<dots> = for_loop (loop_body sample_env ?d) (tl model_names) ?w1"
    by (rule for_loop_step) (rule loop_body_returns [OF sample_console sample_library])
  finally have e: "export_models sample_env fresh_world =
      for_loop (loop_body sample_env ?d) (tl model_names) ?w1" .
  have "ModelExport ?a \<in> set (trace ?w1)"
    by (simp add: run_defs export_options_def sample_env_def fresh_world_def)
  moreover obtain evs where
    "trace (snd (for_loop (loop_body sample_env ?d) (tl model_names) ?w1)) = trace ?w1 @ evs"
    using for_loop_exports [of sample_env ?d "tl model_names" ?w1] by blast
  ultimately have h1: "ModelExport ?a \<in> set (trace (snd (export_models sample_env fresh_world)))"
    by (simp only: e set_append Un_iff simp_thms)
  have h2: "ModelExport ?a \<notin> set (trace fresh_world)"
    by (simp add: fresh_world_def)
  show ?thesis
    using h1 h2 export_options_fixed [OF h1 h2] by simp
qed

text \<open>
  C7. When the artifact reported by the export is a file and a file is already at the
  destination path, the pass moves the artifact over it: unless the operating system
  refuses the move, the destination path then holds the new artifact and the artifact's
  old path is gone. Between the export and the move the script asks only whether the
  artifact exists; nothing is asked about the destination. The console is taken to
  accept the lines of the pass.
\<close>

theorem move_replaces_destination:
  assumes "console_accepts env"
    and "fs w n \<noteq> None"
    and "yolo_load env n (fs w) = (Inr m, f1)"
    and "yolo_export env m export_options f1 = (Inr p, f2)"
    and "f2 p = Some (File artifact)"
    and "f2 (final_path tdir n) = Some (File old)"
    and "rename_refused env p (final_path tdir n) f2 = None"
  shows "fst (loop_body env tdir n w) = Inr () \<and>
         fs (snd (loop_body env tdir n w)) (final_path tdir n) = Some (File artifact) \<and>
         (p \<noteq> final_path tdir n \<longrightarrow> fs (snd (loop_body env tdir n w)) p = None) \<and>
         trace (snd (loop_body env tdir n w)) =
           trace w @ [Print (CHR 0x0A # ''Processing '' @ n @ ''...''), PathExists n True,
                      YoloLoad n, ModelExport export_options, PathExists p True,
                      Rename p (final_path tdir n),
                      Print (''Successfully exported '' @ onnx_filename n @ '' to '' @
                             final_path tdir n)]"
proof -
  have r: "rename_result env p (final_path tdir n) f2 =
      Inr ((f2(p := None))(final_path tdir n \<mapsto> File artifact))"
    using assms(5-7) by (simp add: rename_result_def)
  have e: "f2 p \<noteq> None" using assms(5) by simp
  show ?thesis
    using loop_body_moved [OF assms(1-4) e r]
    by (simp add: processing_line_def success_line_def)
qed

text \<open>
  The sample run: the destination directory holds \<open>yolo26n-pose.onnx\<close> of an earlier run.
\<close>

theorem move_replaces_destination_witness:
  "console_accepts sample_env \<and>
   fs sample_world ''yolo26n-pose.pt'' \<noteq> None \<and>
   yolo_load sample_env ''yolo26n-pose.pt'' (fs sample_world) = (Inr ''yolo26n-pose.pt'', sample_fs) \<and>
   yolo_export sample_env ''yolo26n-pose.pt'' export_options sample_fs =
     (Inr ''yolo26n-pose.onnx'',
      sample_fs(''yolo26n-pose.onnx'' \<mapsto> File ''onnx of yolo26n-pose.pt'')) \<and>
   (sample_fs(''yolo26n-pose.onnx'' \<mapsto> File ''onnx of yolo26n-pose.pt''))
     (final_path ''scripts/../public/models/yolo26'' ''yolo26n-pose.pt'') =
     Some (File ''old artifact'') \<and>
   fs (snd (loop_body sample_env ''scripts/../public/models/yolo26'' ''yolo26n-pose.pt''
              sample_world))
      ''scripts/../public/models/yolo26/yolo26n-pose.onnx'' =
     Some (File ''onnx of yolo26n-pose.pt'')"
proof -
  let ?f2 = "sample_fs(''yolo26n-pose.onnx'' \<mapsto> File ''onnx of yolo26n-pose.pt'')"
  let ?d = "''scripts/../public/models/yolo26''"
  have h1: "fs sample_world ''yolo26n-pose.pt'' \<noteq> None"
    by (simp add: sample_world_def sample_fs_def)
  have h2: "yolo_load sample_env ''yolo26n-pose.pt'' (fs sample_world) =
      (Inr ''yolo26n-pose.pt'', sample_fs)"
    by (simp add: sample_world_def sample_env_def)
  have h3: "yolo_export sample_env ''yolo26n-pose.pt'' export_options sample_fs =
      (Inr ''yolo26n-pose.onnx'', ?f2)"
    by (simp add: sample_env_def)
  have h4: "?f2 ''yolo26n-pose.onnx'' = Some (File ''onnx of yolo26n-pose.pt'')"
    by simp
  have h5: "?f2 (final_path ?d ''yolo26n-pose.pt'') = Some (File ''old artifact'')"
    by (simp add: final_path_sample sample_fs_def)
  have h6: "rename_refused sample_env ''yolo26n-pose.onnx'' (final_path ?d ''yolo26n-pose.pt'') ?f2
      = None"
    by (simp add: sample_env_def)
  show ?thesis
    using sample_console h1 h2 h3 h5
      move_replaces_destination [OF sample_console h1 h2 h3 h4 h5 h6]
    by (simp add: final_path_sample)
qed

text \<open>
  C8, as the code has it. When \<open>os.makedirs\<close> raises, the exception leaves
  \<open>export_models\<close> and the program: the call is the only event of the run, no checkpoint
  is touched and the closing line is not printed. When the console accepts every line
  and the library raises nothing but instances of \<open>Exception\<close>, it is the only exception
  that ends a run: if the program ends with an exception, \<open>os.makedirs\<close> raised it.
\<close>

theorem makedirs_failure_is_fatal:
  "(makedirs_result env (target_dir env) True (fs w) = Inl e \<longrightarrow>
      fst (main env w) = Inl e \<and>
      fs (snd (main env w)) = fs w \<and>
      trace (snd (main env w)) = trace w @ [Makedirs (target_dir env) True]) \<and>
   (console_accepts env \<and> library_in_Exception env \<longrightarrow>
      fst (main env w) = Inl e \<longrightarrow>
      makedirs_result env (target_dir env) True (fs w) = Inl e)"
proof (cases "makedirs_result env (target_dir env) True (fs w)")
  case (Inl e1)
  then show ?thesis
    by (simp add: main_def export_models_raises)
next
  case (Inr f)
  have "fst (main env w) = Inr ()" if c: "console_accepts env" and l: "library_in_Exception env"
  proof -
    have "fst (export_models env w) = Inr ()"
      by (simp only: export_models_returns [OF Inr] print_line_accepted [OF c] prod.case
          sum.case for_loop_body_returns [OF c l] fst_conv)
    then obtain w1 where "export_models env w = (Inr (), w1)"
      by (cases "export_models env w") auto
    then show ?thesis
      by (simp add: main_def print_line_accepted [OF c])
  qed
  with Inr show ?thesis
    by auto
qed

text \<open>The blocked world: \<open>scripts\<close> is a file, so the directory cannot be created.\<close>

theorem makedirs_failure_is_fatal_witness:
  "makedirs_result sample_env (target_dir sample_env) True (fs blocked_world) =
     Inl (Exn ''NotADirectoryError''
            ''[Errno 20] Not a directory: scripts/../public/models/yolo26'') \<and>
   fst (main sample_env blocked_world) =
     Inl (Exn ''NotADirectoryError''
            ''[Errno 20] Not a directory: scripts/../public/models/yolo26'') \<and>
   trace (snd (main sample_env blocked_world)) =
     [Makedirs ''scripts/../public/models/yolo26'' True]"
proof -
  let ?e = "Exn ''NotADirectoryError''
            ''[Errno 20] Not a directory: scripts/../public/models/yolo26''"
  have h: "makedirs_result sample_env (target_dir sample_env) True (fs blocked_world) = Inl ?e"
    by (simp only: target_dir_sample makedirs_blocked)
  have t: "trace blocked_world = []"
    by (simp add: blocked_world_def)
  from makedirs_failure_is_fatal [of sample_env blocked_world ?e, THEN conjunct1] h t
  show ?thesis
    by (simp add: target_dir_sample)
qed

text \<open>
  C8, as the specification has it, fails: other errors end a run. With the standard
  output on a full device \<open>os.makedirs\<close> returns, the opening line is printed, and the
  \<open>print\<close> of the first processing notice, which is outside the \<open>try\<close>, raises the
  \<open>OSError\<close> that ends the program. And when the export of the first checkpoint is
  interrupted, \<open>os.makedirs\<close> has returned and the \<open>KeyboardInterrupt\<close> ends the program.
\<close>

theorem makedirs_failure_is_fatal_counterexample:
  "makedirs_result full_console_env (target_dir full_console_env) True (fs fresh_world) =
     Inr ((fs fresh_world)
       (''scripts/..'' \<mapsto> Directory, ''scripts/../public'' \<mapsto> Directory,
        ''scripts/../public/models'' \<mapsto> Directory,
        ''scripts/../public/models/yolo26'' \<mapsto> Directory)) \<and>
   fst (main full_console_env fresh_world) =
     Inl (Exn ''OSError'' ''[Errno 28] No space left on device'') \<and>
   trace (snd (main full_console_env fresh_world)) =
     [Makedirs ''scripts/../public/models/yolo26'' True,
      Print ''Exporting models to scripts/../public/models/yolo26...''] \<and>
   makedirs_result interrupted_env (target_dir interrupted_env) True (fs fresh_world) =
     Inr ((fs fresh_world)
       (''scripts/..'' \<mapsto> Directory, ''scripts/../public'' \<mapsto> Directory,
        ''scripts/../public/models'' \<mapsto> Directory,
        ''scripts/../public/models/yolo26'' \<mapsto> Directory)) \<and>
   fst (main interrupted_env fresh_world) = Inl (BaseExn ''KeyboardInterrupt'' []) \<and>
   trace (snd (main interrupted_env fresh_world)) =
     [Makedirs ''scripts/../public/models/yolo26'' True,
      Print ''Exporting models to scripts/../public/models/yolo26...'',
      Print (CHR 0x0A # ''Processing yolo26n-pose.pt...''),
      PathExists ''yolo26n-pose.pt'' True, YoloLoad ''yolo26n-pose.pt'',
      ModelExport export_options]"
proof -
  let ?d = "''scripts/../public/models/yolo26''"
  let ?f = "(fs fresh_world)
       (''scripts/..'' \<mapsto> Directory, ''scripts/../public'' \<mapsto> Directory,
        ''scripts/../public/models'' \<mapsto> Directory,
        ''scripts/../public/models/yolo26'' \<mapsto> Directory)"
  have d1: "target_dir full_console_env = ?d"
    using target_dir_sample by (simp add: target_dir_def full_console_env_def)
  have d2: "target_dir interrupted_env = ?d"
    using target_dir_sample by (simp add: target_dir_def interrupted_env_def)
  have m1: "makedirs_result full_console_env ?d True (fs fresh_world) = Inr ?f"
    using makedirs_fresh by (simp add: makedirs_result_def full_console_env_def)
  have m2: "makedirs_result interrupted_env ?d True (fs fresh_world) = Inr ?f"
    using makedirs_fresh by (simp add: makedirs_result_def interrupted_env_def)
  have n: "model_names = ''yolo26n-pose.pt'' # tl model_names"
    by (simp add: model_names_def)
  have e1: "export_models full_console_env fresh_world =
      (case print_line full_console_env (''Exporting models to '' @ ?d @ ''...'')
             ((record_event (Makedirs ?d True) fresh_world)\<lparr>fs := ?f\<rparr>) of
        (Inl e, w2) \<Rightarrow> (Inl e, w2)
      | (Inr u, w2) \<Rightarrow>
          for_loop (loop_body full_console_env ?d) (''yolo26n-pose.pt'' # tl model_names) w2)"
    using export_models_returns [of full_console_env fresh_world ?f] m1 n
    by (simp only: d1)
  have e2: "export_models interrupted_env fresh_world =
      (case print_line interrupted_env (''Exporting models to '' @ ?d @ ''...'')
             ((record_event (Makedirs ?d True) fresh_world)\<lparr>fs := ?f\<rparr>) of
        (Inl e, w2) \<Rightarrow> (Inl e, w2)
      | (Inr u, w2) \<Rightarrow>
          for_loop (loop_body interrupted_env ?d) (''yolo26n-pose.pt'' # tl model_names) w2)"
    using export_models_returns [of interrupted_env fresh_world ?f] m2 n
    by (simp only: d2)
  have a: "fst (main full_console_env fresh_world) =
        Inl (Exn ''OSError'' ''[Errno 28] No space left on device'') \<and>
      trace (snd (main full_console_env fresh_world)) =
        [Makedirs ?d True, Print ''Exporting models to scripts/../public/models/yolo26...'']"
    unfolding main_def e1
    by (simp add: loop_body_def print_line_def full_console_env_def fresh_world_def)
  have b: "fst (main interrupted_env fresh_world) = Inl (BaseExn ''KeyboardInterrupt'' []) \<and>
      trace (snd (main interrupted_env fresh_world)) =
        [Makedirs ?d True, Print ''Exporting models to scripts/../public/models/yolo26...'',
         Print (CHR 0x0A # ''Processing yolo26n-pose.pt...''),
         PathExists ''yolo26n-pose.pt'' True, YoloLoad ''yolo26n-pose.pt'',
         ModelExport export_options]"
    unfolding main_def e2
    by (simp add: run_defs interrupted_env_def sample_env_def fresh_world_def
        processing_line_def)
  from m1 m2 a b show ?thesis
    by (simp only: d1 d2 simp_thms)
qed





end
